theory Spec2Isabelle
  imports Complex_Main
begin

section \<open>Values: Python objects and float64\<close>

text \<open>
  \<^verbatim>\<open>calculate_ppp\<close> of \<^verbatim>\<open>ppp_calculator.py\<close> takes two Python objects and a pandas
  DataFrame. A float64 is modelled by the four kinds of value it can hold: a finite
  number (the real it denotes: rounding, overflow and the sign of zero are not
  modelled), the two infinities, and NaN.
\<close>

datatype float64 = Finite real | PosInf | NegInf | NaN

text \<open>
  The Python objects a currency argument or a cell of the table may be: \<^verbatim>\<open>None\<close>, an
  \<^verbatim>\<open>int\<close>, a \<^verbatim>\<open>float\<close>, a \<^verbatim>\<open>str\<close>.
\<close>

datatype pyobj = PyNone | PyInt int | PyFloat float64 | PyStr string

text \<open>
  The exceptions of the model. The source raises \<^verbatim>\<open>ValueError\<close> three times, each with
  its own message; Python's \<^verbatim>\<open>/\<close> raises the other two.
\<close>

datatype error = ValueError string | ZeroDivisionError | TypeError

section \<open>float64 arithmetic\<close>

text \<open>Division as IEEE 754 defines it on the special values; a zero divisor is +0.\<close>

fun fdiv :: "float64 \<Rightarrow> float64 \<Rightarrow> float64" where
  "fdiv NaN _ = NaN"
| "fdiv _ NaN = NaN"
| "fdiv (Finite x) (Finite y) =
     (if y = 0 then (if x = 0 then NaN else if 0 < x then PosInf else NegInf)
      else Finite (x / y))"
| "fdiv (Finite x) PosInf = Finite 0"
| "fdiv (Finite x) NegInf = Finite 0"
| "fdiv PosInf (Finite y) = (if 0 \<le> y then PosInf else NegInf)"
| "fdiv NegInf (Finite y) = (if 0 \<le> y then NegInf else PosInf)"
| "fdiv PosInf PosInf = NaN"
| "fdiv PosInf NegInf = NaN"
| "fdiv NegInf PosInf = NaN"
| "fdiv NegInf NegInf = NaN"

fun fadd :: "float64 \<Rightarrow> float64 \<Rightarrow> float64" where
  "fadd NaN _ = NaN"
| "fadd _ NaN = NaN"
| "fadd (Finite x) (Finite y) = Finite (x + y)"
| "fadd (Finite x) PosInf = PosInf"
| "fadd (Finite x) NegInf = NegInf"
| "fadd PosInf (Finite y) = PosInf"
| "fadd NegInf (Finite y) = NegInf"
| "fadd PosInf PosInf = PosInf"
| "fadd NegInf NegInf = NegInf"
| "fadd PosInf NegInf = NaN"
| "fadd NegInf PosInf = NaN"

definition fsum :: "float64 list \<Rightarrow> float64" where
  "fsum xs = foldl fadd (Finite 0) xs"


section \<open>The pandas and numpy operations the function calls\<close>

text \<open>
  A DataFrame: its column labels, the dtype of each column, and its rows; a row gives
  the cell under each label. Only the cells under \<^verbatim>\<open>Price_A\<close> and \<^verbatim>\<open>Price_B\<close> are
  read, and only after both labels were found among the columns. A column that ever
  held a \<^verbatim>\<open>str\<close> has dtype \<^verbatim>\<open>object\<close> and keeps it when rows are dropped.
\<close>

datatype dtype = Int64 | Float64 | Object

type_synonym row = "string \<Rightarrow> pyobj"

record dataframe =
  columns :: "string list"
  dtypes :: "string \<Rightarrow> dtype"
  rows :: "row list"

text \<open>A Series: the dtype and the values of one column.\<close>

type_synonym series = "dtype \<times> pyobj list"

text \<open>\<^verbatim>\<open>isinstance(x, str)\<close>.\<close>

fun isinstance_str :: "pyobj \<Rightarrow> bool" where
  "isinstance_str (PyStr _) = True"
| "isinstance_str _ = False"

text \<open>\<^verbatim>\<open>pd.isna\<close> on a scalar: \<^verbatim>\<open>None\<close> and NaN are missing.\<close>

fun isna :: "pyobj \<Rightarrow> bool" where
  "isna PyNone = True"
| "isna (PyFloat NaN) = True"
| "isna _ = False"

text \<open>
  \<^verbatim>\<open>df.dropna(subset=...)\<close>: a new frame without the rows that have a missing value
  under one of the labels of \<^verbatim>\<open>subset\<close>.
\<close>

definition dropna :: "string list \<Rightarrow> dataframe \<Rightarrow> dataframe" where
  "dropna labels df = df\<lparr>rows := filter (\<lambda>r. \<not> list_ex (\<lambda>c. isna (r c)) labels) (rows df)\<rparr>"

text \<open>\<^verbatim>\<open>df[label]\<close>: the column as a Series.\<close>

definition getitem :: "dataframe \<Rightarrow> string \<Rightarrow> series" where
  "getitem df c = (dtypes df c, map (\<lambda>r. r c) (rows df))"

text \<open>
  \<^verbatim>\<open>np.isreal(x)\<close> is \<^verbatim>\<open>imag(x) == 0\<close>: true of an int and of a float (of NaN and the
  infinities too), false of a str. The function meets \<^verbatim>\<open>None\<close> and NaN only
  after \<^verbatim>\<open>dropna\<close> has removed them.
\<close>

fun np_isreal :: "pyobj \<Rightarrow> bool" where
  "np_isreal (PyInt _) = True"
| "np_isreal (PyFloat _) = True"
| "np_isreal (PyStr _) = False"
| "np_isreal PyNone = True"

text \<open>\<^verbatim>\<open>series.apply(np.isreal)\<close> and \<^verbatim>\<open>&\<close> of two boolean Series.\<close>

definition apply_isreal :: "series \<Rightarrow> bool list" where
  "apply_isreal s = map np_isreal (snd s)"

definition series_and :: "bool list \<Rightarrow> bool list \<Rightarrow> bool list" where
  "series_and xs ys = map (\<lambda>(x, y). x \<and> y) (zip xs ys)"

text \<open>\<^verbatim>\<open>df[mask]\<close>: a new frame with the rows where the boolean key is true.\<close>

definition bool_index :: "dataframe \<Rightarrow> bool list \<Rightarrow> dataframe" where
  "bool_index df key = df\<lparr>rows := map fst (filter snd (zip (rows df) key))\<rparr>"

text \<open>\<^verbatim>\<open>df.empty\<close>: an axis of the frame has length 0.\<close>

definition empty_df :: "dataframe \<Rightarrow> bool" where
  "empty_df df = (rows df = [] \<or> columns df = [])"

text \<open>The number a cell holds, if it holds one.\<close>

fun as_float :: "pyobj \<Rightarrow> float64 option" where
  "as_float (PyInt n) = Some (Finite (of_int n))"
| "as_float (PyFloat x) = Some x"
| "as_float _ = None"

text \<open>
  One cell of \<^verbatim>\<open>a / b\<close>. Between two columns of a numeric dtype the division is
  numpy's: a zero divisor gives an infinity or NaN. When one of the columns has dtype
  \<^verbatim>\<open>object\<close> the cells are divided by Python's own \<^verbatim>\<open>/\<close> (\<open>python = True\<close>),
  which raises \<^verbatim>\<open>ZeroDivisionError\<close> on a zero divisor.
\<close>

definition truediv_cell :: "bool \<Rightarrow> pyobj \<Rightarrow> pyobj \<Rightarrow> error + float64" where
  "truediv_cell python x y =
     (case as_float x of
        None \<Rightarrow> Inl TypeError
      | Some a \<Rightarrow>
          (case as_float y of
             None \<Rightarrow> Inl TypeError
           | Some b \<Rightarrow>
               if python \<and> b = Finite 0 then Inl ZeroDivisionError else Inr (fdiv a b)))"

fun truediv_cells :: "bool \<Rightarrow> pyobj list \<Rightarrow> pyobj list \<Rightarrow> error + float64 list" where
  "truediv_cells python (x # xs) (y # ys) =
     (case truediv_cell python x y of
        Inl e \<Rightarrow> Inl e
      | Inr q \<Rightarrow>
          (case truediv_cells python xs ys of
             Inl e \<Rightarrow> Inl e
           | Inr qs \<Rightarrow> Inr (q # qs)))"
| "truediv_cells python _ _ = Inr []"

text \<open>\<^verbatim>\<open>series_a / series_b\<close>, cell by cell; the result is the list of the ratios.\<close>

definition series_truediv :: "series \<Rightarrow> series \<Rightarrow> error + float64 list" where
  "series_truediv a b = truediv_cells (fst a = Object \<or> fst b = Object) (snd a) (snd b)"

text \<open>
  \<^verbatim>\<open>np.mean(series)\<close> calls \<^verbatim>\<open>series.mean()\<close>, whose \<^verbatim>\<open>skipna\<close> is true: the NaN
  among the values are left out of the sum and of the count, and the mean of no value
  is NaN.
\<close>

definition np_mean :: "float64 list \<Rightarrow> float64" where
  "np_mean xs =
     (let ys = filter (\<lambda>x. x \<noteq> NaN) xs
      in if ys = [] then NaN else fdiv (fsum ys) (Finite (real (length ys))))"

section \<open>The store\<close>

text \<open>
  Python passes the table by reference, and \<^verbatim>\<open>dropna\<close> and \<^verbatim>\<open>df[mask]\<close> each build a
  new frame that the local name \<^verbatim>\<open>price_data\<close> is then bound to. The store maps
  references to frames; \<open>next_ref\<close> is the first reference not yet in use.
\<close>

record heap =
  objs :: "nat \<Rightarrow> dataframe"
  next_ref :: nat

definition deref :: "heap \<Rightarrow> nat \<Rightarrow> dataframe" where
  "deref h p = objs h p"

definition new_obj :: "dataframe \<Rightarrow> heap \<Rightarrow> nat \<times> heap" where
  "new_obj df h = (next_ref h, h\<lparr>objs := (objs h)(next_ref h := df), next_ref := Suc (next_ref h)\<rparr>)"

section \<open>calculate_ppp\<close>

text \<open>
  The function, statement by statement: the two checks that raise before the table is
  read (lines 18 to 22); \<^verbatim>\<open>dropna\<close> and the \<^verbatim>\<open>np.isreal\<close> filter, each binding
  \<^verbatim>\<open>price_data\<close> to a new frame (lines 25 and 26); the emptiness check (line 28); the
  ratios and their mean (lines 32 to 38). The result is the exception raised or the value
  returned, and the store after the call.
\<close>

definition currency_msg :: string where
  "currency_msg = ''Currency codes must be strings.''"

definition columns_msg :: string where
  "columns_msg = ''DataFrame must contain 'Price_A' and 'Price_B' columns.''"

definition no_data_msg :: string where
  "no_data_msg = ''DataFrame must contain valid numeric price data.''"

definition calculate_ppp ::
    "pyobj \<Rightarrow> pyobj \<Rightarrow> nat \<Rightarrow> heap \<Rightarrow> (error + float64) \<times> heap" where
  "calculate_ppp currency_a currency_b price_data h =
     (if \<not> isinstance_str currency_a \<or> \<not> isinstance_str currency_b
      then (Inl (ValueError currency_msg), h)
      else if ''Price_A'' \<notin> set (columns (deref h price_data))
              \<or> ''Price_B'' \<notin> set (columns (deref h price_data))
      then (Inl (ValueError columns_msg), h)
      else
        let (price_data1, h1) = new_obj (dropna [''Price_A'', ''Price_B''] (deref h price_data)) h;
            mask = series_and (apply_isreal (getitem (deref h1 price_data1) ''Price_A''))
                              (apply_isreal (getitem (deref h1 price_data1) ''Price_B''));
            (price_data2, h2) = new_obj (bool_index (deref h1 price_data1) mask) h1
        in if empty_df (deref h2 price_data2)
           then (Inl (ValueError no_data_msg), h2)
           else
             (case series_truediv (getitem (deref h2 price_data2) ''Price_A'')
                                  (getitem (deref h2 price_data2) ''Price_B'') of
                Inl e \<Rightarrow> (Inl e, h2)
              | Inr price_ratios \<Rightarrow> (Inr (np_mean price_ratios), h2)))"

section \<open>The words of the specification\<close>

text \<open>
  A valid row: both price fields are present (not null, not NaN) and of numeric type.
\<close>

fun present :: "pyobj \<Rightarrow> bool" where
  "present PyNone = False"
| "present (PyFloat NaN) = False"
| "present _ = True"

fun numeric :: "pyobj \<Rightarrow> bool" where
  "numeric (PyInt _) = True"
| "numeric (PyFloat _) = True"
| "numeric _ = False"

definition valid_row :: "row \<Rightarrow> bool" where
  "valid_row r =
     (present (r ''Price_A'') \<and> present (r ''Price_B'')
      \<and> numeric (r ''Price_A'') \<and> numeric (r ''Price_B''))"

text \<open>The number of a numeric cell as a float64 (NaN for a cell that holds none).\<close>

definition price :: "pyobj \<Rightarrow> float64" where
  "price v = (case as_float v of Some x \<Rightarrow> x | None \<Rightarrow> NaN)"



section \<open>The tables of the source's example and tests\<close>

definition item :: "string \<Rightarrow> pyobj \<Rightarrow> pyobj \<Rightarrow> row" where
  "item g a b =
     (\<lambda>c. if c = ''Goods_Services'' then PyStr g
          else if c = ''Price_A'' then a
          else if c = ''Price_B'' then b
          else PyNone)"

definition frame :: "dtype \<Rightarrow> dtype \<Rightarrow> row list \<Rightarrow> dataframe" where
  "frame ta tb rs =
     \<lparr>columns = [''Goods_Services'', ''Price_A'', ''Price_B''],
      dtypes = (\<lambda>c. if c = ''Price_A'' then ta else if c = ''Price_B'' then tb else Object),
      rows = rs\<rparr>"

text \<open>A store that holds one frame, at reference 0.\<close>

definition store1 :: "dataframe \<Rightarrow> heap" where
  "store1 df = \<lparr>objs = (\<lambda>_. df), next_ref = 1\<rparr>"

text \<open>
  The tables of the unit tests: \<^verbatim>\<open>test_valid_data\<close>, \<^verbatim>\<open>test_missing_prices\<close> (the NaN
  makes \<^verbatim>\<open>Price_A\<close> a float64 column), \<^verbatim>\<open>test_non_numeric_prices\<close> (the \<^verbatim>\<open>'a'\<close>
  makes \<^verbatim>\<open>Price_A\<close> an object column) and \<^verbatim>\<open>test_empty_dataframe\<close>.
\<close>

definition test_valid_data :: dataframe where
  "test_valid_data = frame Int64 Int64
     [item ''Item 1'' (PyInt 100) (PyInt 10),
      item ''Item 2'' (PyInt 200) (PyInt 20),
      item ''Item 3'' (PyInt 150) (PyInt 15)]"

definition test_missing_prices :: dataframe where
  "test_missing_prices = frame Float64 Int64
     [item ''Item 1'' (PyFloat (Finite 100)) (PyInt 10),
      item ''Item 2'' (PyFloat NaN) (PyInt 20),
      item ''Item 3'' (PyFloat (Finite 150)) (PyInt 15)]"

definition test_non_numeric_prices :: dataframe where
  "test_non_numeric_prices = frame Object Int64
     [item ''Item 1'' (PyInt 100) (PyInt 10),
      item ''Item 2'' (PyStr ''a'') (PyInt 20),
      item ''Item 3'' (PyInt 150) (PyInt 15)]"

definition test_empty_dataframe :: dataframe where
  "test_empty_dataframe = frame Object Object []"

text \<open>Further tables: one without the column \<^verbatim>\<open>Price_B\<close>; one whose rows are all
  invalid; and three with a zero \<^verbatim>\<open>Price_B\<close>.\<close>

definition no_price_b :: dataframe where
  "no_price_b =
     \<lparr>columns = [''Goods_Services'', ''Price_A''],
      dtypes = (\<lambda>c. if c = ''Price_A'' then Int64 else Object),
      rows = [item ''Item 1'' (PyInt 100) PyNone]\<rparr>"

definition all_invalid :: dataframe where
  "all_invalid = frame Object Float64
     [item ''Item 1'' (PyStr ''a'') (PyFloat (Finite 10)),
      item ''Item 2'' (PyInt 200) (PyFloat NaN),
      item ''Item 3'' PyNone (PyFloat (Finite 15))]"

definition zero_price_b :: dataframe where
  "zero_price_b = frame Int64 Int64 [item ''Item 1'' (PyInt 100) (PyInt 0)]"

definition zero_over_zero :: dataframe where
  "zero_over_zero = frame Int64 Int64
     [item ''Item 1'' (PyInt 0) (PyInt 0),
      item ''Item 2'' (PyInt 100) (PyInt 10)]"

definition zero_price_b_object :: dataframe where
  "zero_price_b_object = frame Object Int64
     [item ''Item 1'' (PyInt 100) (PyInt 0),
      item ''Item 2'' (PyStr ''a'') (PyInt 20)]"

section \<open>Unfolding the tables and the function\<close>

lemmas table_defs =
  frame_def item_def store1_def deref_def test_valid_data_def test_missing_prices_def
  test_non_numeric_prices_def test_empty_dataframe_def no_price_b_def all_invalid_def
  zero_price_b_def zero_over_zero_def zero_price_b_object_def

lemmas run_defs =
  calculate_ppp_def new_obj_def dropna_def getitem_def apply_isreal_def series_and_def
  bool_index_def empty_df_def series_truediv_def truediv_cell_def np_mean_def fsum_def
  currency_msg_def columns_msg_def no_data_msg_def

text \<open>The four unit tests of the source pass.\<close>

lemma unit_tests:
  "fst (calculate_ppp (PyStr ''USD'') (PyStr ''EUR'') 0 (store1 test_valid_data)) = Inr (Finite 10)"
  "fst (calculate_ppp (PyStr ''USD'') (PyStr ''EUR'') 0 (store1 test_missing_prices)) = Inr (Finite 10)"
  "fst (calculate_ppp (PyStr ''USD'') (PyStr ''EUR'') 0 (store1 test_non_numeric_prices)) =
     Inr (Finite 10)"
  "fst (calculate_ppp (PyStr ''USD'') (PyStr ''EUR'') 0 (store1 test_empty_dataframe)) =
     Inl (ValueError no_data_msg)"
  by (simp_all add: table_defs run_defs)

section \<open>The rows that survive the two filters\<close>

lemma valid_row_iff:
  "valid_row r \<longleftrightarrow>
     (\<not> isna (r ''Price_A'') \<and> \<not> isna (r ''Price_B''))
     \<and> np_isreal (r ''Price_A'') \<and> np_isreal (r ''Price_B'')"
proof -
  have c: "present v \<and> numeric v \<longleftrightarrow> \<not> isna v \<and> np_isreal v" for v
    by (cases v rule: isna.cases) simp_all
  show ?thesis
    unfolding valid_row_def using c [of "r ''Price_A''"] c [of "r ''Price_B''"] by blast
qed

lemma mask_filter:
  "map fst (filter snd (zip xs (series_and (map f (map a xs)) (map g (map b xs))))) =
     filter (\<lambda>r. f (a r) \<and> g (b r)) xs"
  by (induction xs) (simp_all add: series_and_def)

lemma dropna_rows:
  "rows (dropna [''Price_A'', ''Price_B''] df) =
     filter (\<lambda>r. \<not> isna (r ''Price_A'') \<and> \<not> isna (r ''Price_B'')) (rows df)"
  by (simp add: dropna_def)

lemma surviving_rows:
  "rows (bool_index (dropna [''Price_A'', ''Price_B''] df)
      (series_and (apply_isreal (getitem (dropna [''Price_A'', ''Price_B''] df) ''Price_A''))
                  (apply_isreal (getitem (dropna [''Price_A'', ''Price_B''] df) ''Price_B'')))) =
   filter valid_row (rows df)"
proof -
  let ?d = "dropna [''Price_A'', ''Price_B''] df"
  have "rows (bool_index ?d
      (series_and (apply_isreal (getitem ?d ''Price_A'')) (apply_isreal (getitem ?d ''Price_B'')))) =
    filter (\<lambda>r. np_isreal (r ''Price_A'') \<and> np_isreal (r ''Price_B'')) (rows ?d)"
    by (simp add: bool_index_def apply_isreal_def getitem_def mask_filter
        del: map_map)
  also have "\<dots> = filter valid_row (rows df)"
    by (auto simp: dropna_rows valid_row_iff intro: filter_cong)
  finally show ?thesis .
qed

lemma frame_unchanged [simp]:
  "columns (dropna ls df) = columns df" "dtypes (dropna ls df) = dtypes df"
  "columns (bool_index df k) = columns df" "dtypes (bool_index df k) = dtypes df"
  by (simp_all add: dropna_def bool_index_def)

lemma calculate_ppp_checked:
  assumes "isinstance_str a" and "isinstance_str b"
    and "''Price_A'' \<in> set (columns (deref h p))" and "''Price_B'' \<in> set (columns (deref h p))"
  shows "fst (calculate_ppp a b p h) =
    (if filter valid_row (rows (deref h p)) = [] then Inl (ValueError no_data_msg)
     else (case truediv_cells
                 (dtypes (deref h p) ''Price_A'' = Object \<or> dtypes (deref h p) ''Price_B'' = Object)
                 (map (\<lambda>r. r ''Price_A'') (filter valid_row (rows (deref h p))))
                 (map (\<lambda>r. r ''Price_B'') (filter valid_row (rows (deref h p)))) of
             Inl e \<Rightarrow> Inl e
           | Inr qs \<Rightarrow> Inr (np_mean qs)))"
proof -
  define df where "df = deref h p"
  define d where "d = dropna [''Price_A'', ''Price_B''] df"
  define f where "f = bool_index d
      (series_and (apply_isreal (getitem d ''Price_A'')) (apply_isreal (getitem d ''Price_B'')))"
  have rf: "rows f = filter valid_row (rows df)"
    unfolding f_def d_def by (rule surviving_rows)
  have cf: "columns f = columns df" and tf: "dtypes f = dtypes df"
    by (simp_all add: f_def d_def)
  have ne: "columns df \<noteq> []"
    using assms(3) by (auto simp: df_def)
  have "fst (calculate_ppp a b p h) =
    (if empty_df f then Inl (ValueError no_data_msg)
     else (case series_truediv (getitem f ''Price_A'') (getitem f ''Price_B'') of
             Inl e \<Rightarrow> Inl e
           | Inr qs \<Rightarrow> Inr (np_mean qs)))"
    using assms
    by (simp add: calculate_ppp_def new_obj_def deref_def f_def d_def df_def
        split: sum.splits)
  then show ?thesis
    using ne by (simp add: empty_df_def rf cf tf series_truediv_def getitem_def df_def)
qed

section \<open>The ratios and their mean\<close>















section \<open>The claims\<close>







text \<open>
  Claim C3. On a fixed table, any two pairs of string currency identifiers give the same result
  (and the same store).
\<close>

theorem currency_independence:
  assumes "isinstance_str a" and "isinstance_str b" and "isinstance_str a'" and "isinstance_str b'"
  shows "calculate_ppp a b price_data h = calculate_ppp a' b' price_data h"
  using assms by (simp add: calculate_ppp_def)

theorem currency_independence_witness:
  "calculate_ppp (PyStr ''USD'') (PyStr ''EUR'') 0 (store1 test_valid_data) =
   calculate_ppp (PyStr ''JPY'') (PyStr ''not a currency'') 0 (store1 test_valid_data)"
  using currency_independence [where a = "PyStr ''USD''" and b = "PyStr ''EUR''"
      and a' = "PyStr ''JPY''" and b' = "PyStr ''not a currency''"
      and price_data = 0 and h = "store1 test_valid_data"]
  by simp



text \<open>
  Claim C5. When one of the two currency identifiers is not a string the call fails with the
  \<^verbatim>\<open>ValueError\<close> of the currency check, whatever the table.
\<close>

theorem non_string_currency_fails:
  assumes "\<not> isinstance_str currency_a \<or> \<not> isinstance_str currency_b"
  shows "fst (calculate_ppp currency_a currency_b price_data h) = Inl (ValueError currency_msg)"
  using assms by (auto simp: calculate_ppp_def)

theorem non_string_currency_fails_witness:
  "\<not> isinstance_str (PyInt 840)
   \<and> fst (calculate_ppp (PyInt 840) (PyStr ''EUR'') 0 (store1 test_valid_data)) =
       Inl (ValueError ''Currency codes must be strings.'')
   \<and> fst (calculate_ppp (PyStr ''USD'') PyNone 0 (store1 test_empty_dataframe)) =
       Inl (ValueError ''Currency codes must be strings.'')"
  using non_string_currency_fails
      [where currency_a = "PyInt 840" and currency_b = "PyStr ''EUR''"
        and price_data = 0 and h = "store1 test_valid_data"]
    non_string_currency_fails
      [where currency_a = "PyStr ''USD''" and currency_b = "PyNone"
        and price_data = 0 and h = "store1 test_empty_dataframe"]
  by (simp add: currency_msg_def)

text \<open>
  Claim C6. Called with two strings on a table that lacks \<^verbatim>\<open>Price_A\<close> or \<^verbatim>\<open>Price_B\<close>, the
  function fails with the \<^verbatim>\<open>ValueError\<close> of the column check.
\<close>

theorem missing_column_fails:
  assumes "isinstance_str currency_a" and "isinstance_str currency_b"
    and "''Price_A'' \<notin> set (columns (deref h price_data))
         \<or> ''Price_B'' \<notin> set (columns (deref h price_data))"
  shows "fst (calculate_ppp currency_a currency_b price_data h) = Inl (ValueError columns_msg)"
  using assms by (auto simp: calculate_ppp_def)

theorem missing_column_fails_witness:
  "''Price_B'' \<notin> set (columns (deref (store1 no_price_b) 0))
   \<and> fst (calculate_ppp (PyStr ''USD'') (PyStr ''EUR'') 0 (store1 no_price_b)) =
       Inl (ValueError ''DataFrame must contain 'Price_A' and 'Price_B' columns.'')"
  using missing_column_fails
      [where currency_a = "PyStr ''USD''" and currency_b = "PyStr ''EUR''"
        and price_data = 0 and h = "store1 no_price_b"]
  by (simp add: table_defs columns_msg_def)

text \<open>
  Claim C7. Called with two strings on a table that has both price columns and no valid row
  (a table without rows, or one whose rows all have a missing or non-numeric price), the
  function fails with the \<^verbatim>\<open>ValueError\<close> of the emptiness check.
\<close>

theorem no_valid_row_fails:
  assumes "isinstance_str currency_a" and "isinstance_str currency_b"
    and "''Price_A'' \<in> set (columns (deref h price_data))"
    and "''Price_B'' \<in> set (columns (deref h price_data))"
    and "\<not> list_ex valid_row (rows (deref h price_data))"
  shows "fst (calculate_ppp currency_a currency_b price_data h) = Inl (ValueError no_data_msg)"
proof -
  have "filter valid_row (rows (deref h price_data)) = []"
    using assms(5) by (simp add: list_ex_iff filter_empty_conv)
  then show ?thesis
    using assms(1-4) by (simp add: calculate_ppp_checked)
qed

theorem no_valid_row_fails_witness:
  "rows test_empty_dataframe = []
   \<and> fst (calculate_ppp (PyStr ''USD'') (PyStr ''EUR'') 0 (store1 test_empty_dataframe)) =
       Inl (ValueError ''DataFrame must contain valid numeric price data.'')
   \<and> length (rows all_invalid) = 3
   \<and> fst (calculate_ppp (PyStr ''USD'') (PyStr ''EUR'') 0 (store1 all_invalid)) =
       Inl (ValueError ''DataFrame must contain valid numeric price data.'')"
  using no_valid_row_fails
      [where currency_a = "PyStr ''USD''" and currency_b = "PyStr ''EUR''"
        and price_data = 0 and h = "store1 test_empty_dataframe"]
    no_valid_row_fails
      [where currency_a = "PyStr ''USD''" and currency_b = "PyStr ''EUR''"
        and price_data = 0 and h = "store1 all_invalid"]
  by (simp add: table_defs valid_row_def no_data_msg_def)




text \<open>
  Claim C9. Every frame the store held before the call, the caller's table among them, is
  the same after the call, whether the call returns or fails: the function only adds frames
  to the store.
\<close>

theorem table_not_mutated:
  assumes "q < next_ref h"
  shows "deref (snd (calculate_ppp currency_a currency_b price_data h)) q = deref h q"
  using assms
  by (simp add: calculate_ppp_def new_obj_def deref_def Let_def split: sum.splits)

theorem table_not_mutated_witness:
  "(0::nat) < next_ref (store1 test_missing_prices)
   \<and> deref (snd (calculate_ppp (PyStr ''USD'') (PyStr ''EUR'') 0 (store1 test_missing_prices))) 0 =
       test_missing_prices
   \<and> deref (snd (calculate_ppp (PyStr ''USD'') (PyInt 1) 0 (store1 test_missing_prices))) 0 =
       test_missing_prices"
  using table_not_mutated [where q = 0 and h = "store1 test_missing_prices"
      and currency_a = "PyStr ''USD''" and currency_b = "PyStr ''EUR''" and price_data = 0]
    table_not_mutated [where q = 0 and h = "store1 test_missing_prices"
      and currency_a = "PyStr ''USD''" and currency_b = "PyInt 1" and price_data = 0]
  by (simp add: store1_def deref_def)

text \<open>
  Claim C10. The checks run in order: a currency identifier that is not a string gives the
  error of the currency check whatever the table; with two strings, a missing price column
  gives the error of the column check whatever the rows; only with both columns present does
  a table without a valid row give the error of the emptiness check.
\<close>

theorem validation_order:
  "(\<not> isinstance_str currency_a \<or> \<not> isinstance_str currency_b \<longrightarrow>
      fst (calculate_ppp currency_a currency_b price_data h) = Inl (ValueError currency_msg))
   \<and> (isinstance_str currency_a \<and> isinstance_str currency_b
       \<and> (''Price_A'' \<notin> set (columns (deref h price_data))
            \<or> ''Price_B'' \<notin> set (columns (deref h price_data))) \<longrightarrow>
      fst (calculate_ppp currency_a currency_b price_data h) = Inl (ValueError columns_msg))
   \<and> (isinstance_str currency_a \<and> isinstance_str currency_b
       \<and> ''Price_A'' \<in> set (columns (deref h price_data))
       \<and> ''Price_B'' \<in> set (columns (deref h price_data))
       \<and> \<not> list_ex valid_row (rows (deref h price_data)) \<longrightarrow>
      fst (calculate_ppp currency_a currency_b price_data h) = Inl (ValueError no_data_msg))"
proof (intro conjI impI)
  assume "\<not> isinstance_str currency_a \<or> \<not> isinstance_str currency_b"
  then show "fst (calculate_ppp currency_a currency_b price_data h) = Inl (ValueError currency_msg)"
    by (auto simp: calculate_ppp_def)
next
  assume "isinstance_str currency_a \<and> isinstance_str currency_b
       \<and> (''Price_A'' \<notin> set (columns (deref h price_data))
            \<or> ''Price_B'' \<notin> set (columns (deref h price_data)))"
  then show "fst (calculate_ppp currency_a currency_b price_data h) = Inl (ValueError columns_msg)"
    by (auto simp: calculate_ppp_def)
next
  assume a: "isinstance_str currency_a \<and> isinstance_str currency_b
       \<and> ''Price_A'' \<in> set (columns (deref h price_data))
       \<and> ''Price_B'' \<in> set (columns (deref h price_data))
       \<and> \<not> list_ex valid_row (rows (deref h price_data))"
  then have "filter valid_row (rows (deref h price_data)) = []"
    by (simp add: list_ex_iff filter_empty_conv)
  with a show "fst (calculate_ppp currency_a currency_b price_data h) = Inl (ValueError no_data_msg)"
    by (simp add: calculate_ppp_checked)
qed

theorem validation_order_witness:
  "\<not> isinstance_str (PyInt 840)
   \<and> ''Price_B'' \<notin> set (columns (deref (store1 no_price_b) 0))
   \<and> fst (calculate_ppp (PyInt 840) (PyStr ''EUR'') 0 (store1 no_price_b)) =
       Inl (ValueError ''Currency codes must be strings.'')
   \<and> \<not> list_ex valid_row (rows (deref (store1 no_price_b) 0))
   \<and> fst (calculate_ppp (PyStr ''USD'') (PyStr ''EUR'') 0 (store1 no_price_b)) =
       Inl (ValueError ''DataFrame must contain 'Price_A' and 'Price_B' columns.'')"
  using validation_order
      [where currency_a = "PyInt 840" and currency_b = "PyStr ''EUR''"
        and price_data = 0 and h = "store1 no_price_b"]
    validation_order
      [where currency_a = "PyStr ''USD''" and currency_b = "PyStr ''EUR''"
        and price_data = 0 and h = "store1 no_price_b"]
  by (simp add: table_defs valid_row_def currency_msg_def columns_msg_def)

end
